theory Spec2Isabelle
  imports Main "HOL-Library.Word"
begin

unbundle bit_operations_syntax

section \<open>The sc5xx cpufreq driver (drivers/cpufreq/sc5xx-cpufreq.c)\<close>

text \<open>
  The driver is a single C file. Everything it computes depends on three things outside
  of it: which \<open>CONFIG_ARCH_*\<close> symbol the kernel was configured with, what the clock
  framework answers (\<open>clk_get\<close>, \<open>clk_get_rate\<close>), and what the memory-mapped register
  \<open>CGU_DIV\<close> returns each time it is read. These three are the environment of the model;
  the driver functions are translated one by one, with the calls they make on the outside
  world recorded, in order, in a trace of events.
\<close>

subsection \<open>C types and kernel constants\<close>

text \<open>
  \<open>unsigned int\<close>, \<open>uint32_t\<close> and \<open>int\<close> are 32 bits wide on every supported platform;
  an \<open>int\<close> is kept as its two's complement bit pattern (\<open>- ENODEV\<close> is the pattern of
  \<open>-19\<close>, read back with \<open>sint\<close>). \<open>unsigned long\<close> is 32 bits on the 32-bit platforms and
  64 bits on \<open>CONFIG_ARCH_SC59X_64\<close>; it is modelled at its widest, 64 bits.
\<close>

type_synonym u32 = "32 word"
type_synonym c_int = "32 word"
type_synonym ulong = "64 word"

text \<open>The platform the kernel is configured for (\<open>ARCH_NONE\<close>: none of the three symbols).\<close>

datatype arch = ARCH_SC58X | ARCH_SC59X | ARCH_SC59X_64 | ARCH_NONE

definition CLK :: string where
  "CLK = ''sys_clkin0''"

definition CGU_DIV_UPDT_MASK :: u32 where
  "CGU_DIV_UPDT_MASK = 0x4000"

definition CGU_DIV_CSEL_MASK :: u32 where
  "CGU_DIV_CSEL_MASK = 0x000F"

text \<open>\<open>#if defined(CONFIG_ARCH_SC59X_64) || defined(CONFIG_ARCH_SC58X)\<close>\<close>

definition CGU_DIV :: "arch \<Rightarrow> int" where
  "CGU_DIV a = (if a = ARCH_SC59X_64 \<or> a = ARCH_SC58X then 0x3108D00C else - 1)"

text \<open>\<open>#if defined(CONFIG_ARCH_SC58X) || defined(CONFIG_ARCH_SC59X) || defined(CONFIG_ARCH_SC59X_64)\<close>\<close>

definition MIN_MHZ :: "arch \<Rightarrow> u32" where
  "MIN_MHZ a = (if a = ARCH_SC58X \<or> a = ARCH_SC59X \<or> a = ARCH_SC59X_64 then 800 else 0)"

definition MAX_MHZ :: "arch \<Rightarrow> u32" where
  "MAX_MHZ a = (if a = ARCH_SC58X \<or> a = ARCH_SC59X \<or> a = ARCH_SC59X_64 then 1000 else 0)"

definition TRANSITION_LATENCY_NS :: nat where
  "TRANSITION_LATENCY_NS = 50000"

text \<open>
  Constants and macros of the kernel headers the file includes (\<open>linux/errno.h\<close>,
  \<open>linux/err.h\<close>, \<open>linux/cpufreq.h\<close>), which are not part of the driver file:
  \<open>ENODEV\<close> is 19, \<open>MAX_ERRNO\<close> is 4095, \<open>CPUFREQ_TABLE_END\<close> is \<open>~1u\<close>, and
  \<open>IS_ERR_VALUE(x)\<close> is \<open>(unsigned long)(void *)(x) >= (unsigned long)-MAX_ERRNO\<close>. The
  conversion of an \<open>int\<close> to a pointer sign-extends, so on an \<open>int\<close> the test is the
  unsigned comparison at the width of the \<open>int\<close>, whatever the width of a pointer.
\<close>

definition ENODEV :: c_int where
  "ENODEV = 19"

definition MAX_ERRNO :: c_int where
  "MAX_ERRNO = 4095"

definition CPUFREQ_TABLE_END :: u32 where
  "CPUFREQ_TABLE_END = NOT 1"

definition IS_ERR_VALUE :: "c_int \<Rightarrow> bool" where
  "IS_ERR_VALUE x = (- MAX_ERRNO \<le> x)"

subsection \<open>The clock framework and the register, as the driver sees them\<close>

text \<open>
  A \<open>struct clk *\<close> is an error pointer (\<open>ERR_PTR(-errno)\<close>), \<open>NULL\<close>, or a handle.
  \<open>IS_ERR\<close> is true of error pointers only; \<open>NULL\<close> is not an error pointer.
\<close>

datatype clk = Clk_ERR nat | Clk_NULL | Clk_handle nat

fun IS_ERR :: "clk \<Rightarrow> bool" where
  "IS_ERR (Clk_ERR errno) = True"
| "IS_ERR Clk_NULL = False"
| "IS_ERR (Clk_handle h) = False"

text \<open>
  The environment: \<open>cgu_div e n\<close> is the value the \<open>n\<close>-th \<open>readl\<close> of the register
  returns (the register is volatile: the hardware may change it between two reads).
\<close>

record env =
  arch :: arch
  clk_get :: "string \<Rightarrow> clk"
  clk_get_rate :: "clk \<Rightarrow> ulong"
  cgu_div :: "nat \<Rightarrow> u32"

text \<open>
  What the driver does to the outside world. The argument of \<open>Printk_speed\<close> and of
  \<open>Clk_put\<close> is \<open>None\<close> when the C variable passed is read before it was ever
  assigned. \<open>Writel\<close> is a write to the register.
\<close>

datatype event =
    Clk_get string
  | Clk_get_rate clk
  | Clk_put "clk option"
  | Ioremap int nat
  | Readl u32
  | Writel u32
  | Ndelay nat
  | Printk string
  | Printk_speed "u32 option"

record state =
  nreads :: nat
  trace :: "event list"

definition emit :: "event \<Rightarrow> state \<Rightarrow> state" where
  "emit ev s = s\<lparr>trace := trace s @ [ev]\<rparr>"

definition readl :: "env \<Rightarrow> state \<Rightarrow> u32 \<times> state" where
  "readl e s =
     (let v = cgu_div e (nreads s)
      in (v, emit (Readl v) (s\<lparr>nreads := Suc (nreads s)\<rparr>)))"

fun is_register_access :: "event \<Rightarrow> bool" where
  "is_register_access (Ioremap a n) = True"
| "is_register_access (Readl v) = True"
| "is_register_access (Writel v) = True"
| "is_register_access ev = False"

fun is_write :: "event \<Rightarrow> bool" where
  "is_write (Writel v) = True"
| "is_write ev = False"

fun is_clk_put :: "event \<Rightarrow> bool" where
  "is_clk_put (Clk_put c) = True"
| "is_clk_put ev = False"

fun is_delay :: "event \<Rightarrow> bool" where
  "is_delay (Ndelay n) = True"
| "is_delay ev = False"

subsection \<open>The frequency table\<close>

text \<open>
  \<open>struct cpufreq_frequency_table\<close> (declared in \<open>linux/cpufreq.h\<close>) has the fields
  \<open>flags\<close>, \<open>driver_data\<close> and \<open>frequency\<close>, all \<open>unsigned int\<close>; the initialiser sets
  the last two. \<open>.driver_data = -1\<close> stores the bit pattern of \<open>-1\<close>.
\<close>

record cpufreq_frequency_table =
  frequency :: u32
  driver_data :: u32

definition sc5xx_frequency_table :: "arch \<Rightarrow> cpufreq_frequency_table list" where
  "sc5xx_frequency_table a =
     [ \<lparr>frequency = MAX_MHZ a * 1000, driver_data = 1\<rparr>,
       \<lparr>frequency = MIN_MHZ a * 1000, driver_data = 0\<rparr>,
       \<lparr>frequency = CPUFREQ_TABLE_END, driver_data = - 1\<rparr> ]"

text \<open>The maximum valid index is what \<open>sc5xx_target_index\<close> reads: the head's \<open>driver_data\<close>.\<close>

definition max_valid_index :: "arch \<Rightarrow> u32" where
  "max_valid_index a = driver_data (sc5xx_frequency_table a ! 0)"

subsection \<open>Policy verification\<close>

text \<open>
  \<open>struct cpufreq_policy_data\<close>: the two fields the verification concerns.
\<close>

record cpufreq_policy_data =
  policy_min :: u32
  policy_max :: u32

text \<open>
  \<open>sc5xx_verify\<close> declares \<open>unsigned int min, max\<close>, assigns \<open>min\<close> twice
  (\<open>min = MIN_MHZ * 1000; min = MAX_MHZ * 1000;\<close>) and never assigns \<open>max\<close>: the value
  of \<open>max\<close> is whatever the stack holds, the parameter \<open>max_uninit\<close> here. The kernel's
  \<open>cpufreq_verify_within_limits\<close> (an inline function of \<open>linux/cpufreq.h\<close>) is the
  parameter \<open>within_limits\<close>. The result is the return value and the policy.
\<close>

definition sc5xx_verify ::
  "arch \<Rightarrow> (cpufreq_policy_data \<Rightarrow> u32 \<Rightarrow> u32 \<Rightarrow> cpufreq_policy_data) \<Rightarrow> u32
     \<Rightarrow> cpufreq_policy_data \<Rightarrow> c_int \<times> cpufreq_policy_data" where
  "sc5xx_verify a within_limits max_uninit policy =
     (let min0 = MIN_MHZ a * 1000;
          min1 = MAX_MHZ a * 1000;
          max0 = max_uninit
      in if min1 = 0 \<and> max0 = 0 then (- ENODEV, policy)
         else (0, within_limits policy min1 max0))"

subsection \<open>Frequency query\<close>

text \<open>
  \<open>sc5xx_get_cpu_freq\<close> (its one parameter is unnamed and unused). The \<open>printk\<close> of
  the success path prints \<open>core_clk_rate\<close> before the assignment from \<open>clk_get_rate\<close>;
  the value returned is the assigned one, converted from \<open>unsigned long\<close> to
  \<open>unsigned int\<close>.
\<close>

definition sc5xx_get_cpu_freq :: "env \<Rightarrow> state \<Rightarrow> u32 \<times> state" where
  "sc5xx_get_cpu_freq e s =
     (let core_clk = clk_get e CLK;
          s1 = emit (Clk_get CLK) s
      in if IS_ERR core_clk then
           (let s2 = emit (Printk ''could not get clk: %s[%d]'') s1;
                s3 = (if core_clk = Clk_NULL then emit (Printk ''got null!'') s2 else s2)
            in (0, s3))
         else
           (let s2 = emit (Printk_speed None) s1;
                core_clk_rate = ucast (clk_get_rate e core_clk);
                s3 = emit (Clk_get_rate core_clk) s2
            in (core_clk_rate, s3)))"

subsection \<open>Divisor arithmetic\<close>

text \<open>
  \<open>calc_cclk_freq\<close> ignores its argument and returns what \<open>sc5xx_get_cpu_freq\<close> returns;
  \<open>calc_cclk_divisor_for_freq\<close> ignores its argument and returns its local \<open>divisor = 0\<close>.
\<close>

definition calc_cclk_freq :: "env \<Rightarrow> u32 \<Rightarrow> state \<Rightarrow> u32 \<times> state" where
  "calc_cclk_freq e divisor s =
     (let sysclk_freq0 = (0 :: u32);
          (sysclk_freq, s1) = sc5xx_get_cpu_freq e s
      in (sysclk_freq, s1))"

definition calc_cclk_divisor_for_freq :: "u32 \<Rightarrow> u32" where
  "calc_cclk_divisor_for_freq freq = (let divisor = 0 in divisor)"

subsection \<open>The transition\<close>

text \<open>
  \<open>while(!readl(cgu_div)) ndelay(TRANSITION_LATENCY_NS);\<close> has no bound, and may never
  exit: not returning is the value \<open>None\<close>.
\<close>

partial_function (option) wait_loop :: "env \<Rightarrow> state \<Rightarrow> state option" where
  "wait_loop e s =
     (case readl e s of
        (v, s1) \<Rightarrow>
          if v = 0 then wait_loop e (emit (Ndelay TRANSITION_LATENCY_NS) s1)
          else Some s1)"

text \<open>
  \<open>set_sc5xx_cpu_freq\<close>. The source passes \<open>calc_cclk_freq\<close> an identifier \<open>divisor\<close>
  where the local is named \<open>pll_divisor\<close>; the argument is ignored by the callee. The
  \<open>clk_put\<close> at the end is given \<open>core_clk\<close>, which is never assigned. The register is
  read with \<open>readl\<close> only.
\<close>

definition set_sc5xx_cpu_freq :: "env \<Rightarrow> u32 \<Rightarrow> state \<Rightarrow> (c_int \<times> state) option" where
  "set_sc5xx_cpu_freq e new_freq s =
     (let err = (0 :: c_int);
          s0 = emit (Ioremap (CGU_DIV (arch e)) 4) s;
          (v, s1) = readl e s0
      in case (if v AND CGU_DIV_UPDT_MASK \<noteq> 0 then wait_loop e s1 else Some s1) of
           None \<Rightarrow> None
         | Some s2 \<Rightarrow>
             (let (v2, s3) = readl e s2;
                  pll_divisor = v2 AND CGU_DIV_CSEL_MASK;
                  (f, s4) = calc_cclk_freq e pll_divisor s3
              in if f = new_freq then Some (0, s4)
                 else Some (err, emit (Clk_put None) s4)))"

text \<open>
  \<open>sc5xx_target_index\<close>; the policy argument is not used. The table is indexed only
  after \<open>index \<le> max_freq_nodes\<close> was checked, and \<open>max_freq_nodes\<close> is 1, so the
  index is within the three entries.
\<close>

definition sc5xx_target_index ::
  "env \<Rightarrow> 'policy \<Rightarrow> u32 \<Rightarrow> state \<Rightarrow> (c_int \<times> state) option" where
  "sc5xx_target_index e policy index s =
     (let err = (0 :: c_int);
          max_freq_nodes = driver_data (sc5xx_frequency_table (arch e) ! 0)
      in if max_freq_nodes < index then
           Some (0, emit (Printk ''Invalid frequency index provided'') s)
         else
           (let new_freq = frequency (sc5xx_frequency_table (arch e) ! unat index);
                (curr_freq, s1) = sc5xx_get_cpu_freq e s
            in if curr_freq = 0 \<and> new_freq = 0 then Some (- ENODEV, s1)
               else
                 (case set_sc5xx_cpu_freq e new_freq s1 of
                    None \<Rightarrow> None
                  | Some (err1, s2) \<Rightarrow>
                      if IS_ERR_VALUE err1 then Some (err1, s2) else Some (0, s2))))"

subsection \<open>Concrete environments\<close>

text \<open>
  A supported platform whose register always reads \<open>0x4001\<close> (update in progress, never
  clearing) and whose reference clock is found and runs at 25 MHz; a configuration
  with no platform symbol, where the clock lookup fails; and a platform whose register
  reads \<open>0x4000\<close> once and zero ever after.
\<close>

definition initial_state :: state where
  "initial_state = \<lparr>nreads = 0, trace = []\<rparr>"

definition env_stuck :: env where
  "env_stuck =
     \<lparr>arch = ARCH_SC58X,
      clk_get = (\<lambda>name. Clk_handle 0),
      clk_get_rate = (\<lambda>c. 25000000),
      cgu_div = (\<lambda>n. 0x4001)\<rparr>"

definition env_none :: env where
  "env_none =
     \<lparr>arch = ARCH_NONE,
      clk_get = (\<lambda>name. Clk_ERR 2),
      clk_get_rate = (\<lambda>c. 0),
      cgu_div = (\<lambda>n. 0)\<rparr>"


section \<open>Properties\<close>

subsection \<open>Auxiliary facts about the model\<close>

lemma emit_simps:
  "nreads (emit ev s) = nreads s" "trace (emit ev s) = trace s @ [ev]"
  by (simp_all add: emit_def)

lemma readl_simps:
  "fst (readl e s) = cgu_div e (nreads s)"
  "nreads (snd (readl e s)) = Suc (nreads s)"
  "trace (snd (readl e s)) = trace s @ [Readl (cgu_div e (nreads s))]"
  by (simp_all add: readl_def Let_def emit_def)

lemma sc5xx_get_cpu_freq_fst:
  "fst (sc5xx_get_cpu_freq e s) =
     (if IS_ERR (clk_get e CLK) then 0 else ucast (clk_get_rate e (clk_get e CLK)))"
  by (simp add: sc5xx_get_cpu_freq_def Let_def)

lemma sc5xx_get_cpu_freq_snd:
  "nreads (snd (sc5xx_get_cpu_freq e s)) = nreads s"
  "filter is_write (trace (snd (sc5xx_get_cpu_freq e s))) = filter is_write (trace s)"
  "filter is_register_access (trace (snd (sc5xx_get_cpu_freq e s)))
     = filter is_register_access (trace s)"
  "filter is_clk_put (trace (snd (sc5xx_get_cpu_freq e s))) = filter is_clk_put (trace s)"
  by (simp_all add: sc5xx_get_cpu_freq_def Let_def emit_simps)

lemma calc_cclk_freq_eq: "calc_cclk_freq e divisor s = sc5xx_get_cpu_freq e s"
  by (simp add: calc_cclk_freq_def)

lemma IS_ERR_VALUE_0: "\<not> IS_ERR_VALUE 0"
  by (simp add: IS_ERR_VALUE_def MAX_ERRNO_def)

text \<open>One turn of the wait loop: it exits on a non-zero read and goes round on a zero read.\<close>

lemma wait_loop_nonzero:
  "cgu_div e (nreads s) \<noteq> 0 \<Longrightarrow> wait_loop e s = Some (snd (readl e s))"
  by (subst wait_loop.simps) (simp add: readl_def Let_def)

lemma wait_loop_zero:
  "cgu_div e (nreads s) = 0 \<Longrightarrow>
     wait_loop e s = wait_loop e (emit (Ndelay TRANSITION_LATENCY_NS) (snd (readl e s)))"
  by (subst wait_loop.simps) (simp add: readl_def Let_def)

text \<open>
  The loop returns as soon as some later read of the register is not zero, and it has
  only read and delayed by then.
\<close>

lemma wait_loop_exits:
  "cgu_div e (nreads s + k) \<noteq> 0 \<Longrightarrow>
     \<exists>s'. wait_loop e s = Some s'
        \<and> filter is_write (trace s') = filter is_write (trace s)
        \<and> filter is_clk_put (trace s') = filter is_clk_put (trace s)"
proof (induction k arbitrary: s)
  case 0
  then show ?case by (simp add: wait_loop_nonzero readl_simps)
next
  case (Suc k)
  show ?case
  proof (cases "cgu_div e (nreads s) = 0")
    case False
    then show ?thesis by (simp add: wait_loop_nonzero readl_simps)
  next
    case True
    let ?s = "emit (Ndelay TRANSITION_LATENCY_NS) (snd (readl e s))"
    have "cgu_div e (nreads ?s + k) \<noteq> 0"
      using Suc.prems by (simp add: emit_simps readl_simps)
    from Suc.IH [OF this] obtain s' where
      "wait_loop e ?s = Some s'"
      "filter is_write (trace s') = filter is_write (trace ?s)"
      "filter is_clk_put (trace s') = filter is_clk_put (trace ?s)"
      by blast
    then show ?thesis
      using True by (simp add: wait_loop_zero emit_simps readl_simps)
  qed
qed


text \<open>
  \<open>set_sc5xx_cpu_freq\<close> once the wait of lines 202 to 205 is over: the register is read
  once more, the clock is queried, and both exits return 0.
\<close>

lemma set_sc5xx_cpu_freq_after_wait:
  assumes "(if cgu_div e (nreads s) AND CGU_DIV_UPDT_MASK \<noteq> 0
            then wait_loop e (snd (readl e (emit (Ioremap (CGU_DIV (arch e)) 4) s)))
            else Some (snd (readl e (emit (Ioremap (CGU_DIV (arch e)) 4) s)))) = Some s2"
  shows "set_sc5xx_cpu_freq e new_freq s =
           (let s4 = snd (sc5xx_get_cpu_freq e (snd (readl e s2)))
            in if fst (sc5xx_get_cpu_freq e s) = new_freq then Some (0, s4)
               else Some (0, emit (Clk_put None) s4))"
  using assms
  by (simp add: set_sc5xx_cpu_freq_def Let_def case_prod_beta readl_simps emit_simps
      calc_cclk_freq_eq sc5xx_get_cpu_freq_fst)

text \<open>
  The wait is over when the first read has the update flag clear (the loop is not
  entered) or some read after the first is not zero (the loop exits). Then the function
  returns 0 and has written nothing; and it returns only then.
\<close>

lemma set_sc5xx_cpu_freq_returns:
  assumes "cgu_div e (nreads s) AND CGU_DIV_UPDT_MASK = 0
           \<or> (\<exists>k. cgu_div e (Suc (nreads s) + k) \<noteq> 0)"
  shows "\<exists>s'. set_sc5xx_cpu_freq e new_freq s = Some (0, s')
           \<and> filter is_write (trace s') = filter is_write (trace s)
           \<and> (fst (sc5xx_get_cpu_freq e s) = new_freq \<longrightarrow>
                filter is_clk_put (trace s') = filter is_clk_put (trace s))"
proof -
  let ?s1 = "snd (readl e (emit (Ioremap (CGU_DIV (arch e)) 4) s))"
  let ?w = "if cgu_div e (nreads s) AND CGU_DIV_UPDT_MASK \<noteq> 0
            then wait_loop e ?s1 else Some ?s1"
  have "\<exists>s2. ?w = Some s2 \<and> filter is_write (trace s2) = filter is_write (trace s)
          \<and> filter is_clk_put (trace s2) = filter is_clk_put (trace s)"
  proof (cases "cgu_div e (nreads s) AND CGU_DIV_UPDT_MASK = 0")
    case True
    then show ?thesis by (simp add: readl_simps emit_simps)
  next
    case False
    with assms obtain k where "cgu_div e (Suc (nreads s) + k) \<noteq> 0" by blast
    then have "cgu_div e (nreads ?s1 + k) \<noteq> 0" by (simp add: readl_simps emit_simps)
    from wait_loop_exits [OF this] False show ?thesis
      by (simp add: readl_simps emit_simps)
  qed
  then obtain s2 where w: "?w = Some s2"
    and nw: "filter is_write (trace s2) = filter is_write (trace s)"
    and np: "filter is_clk_put (trace s2) = filter is_clk_put (trace s)"
    by blast
  show ?thesis
    unfolding set_sc5xx_cpu_freq_after_wait [OF w]
    by (simp add: Let_def nw np sc5xx_get_cpu_freq_snd readl_simps emit_simps)
qed



lemma set_sc5xx_cpu_freq_result:
  "set_sc5xx_cpu_freq e new_freq s = Some (r, s') \<Longrightarrow> r = 0"
  by (auto simp add: set_sc5xx_cpu_freq_def Let_def split: prod.splits option.splits if_splits)

text \<open>A run on the platform whose register reads \<open>0x4001\<close> for ever.\<close>

lemma set_sc5xx_cpu_freq_env_stuck:
  "set_sc5xx_cpu_freq env_stuck 1000000 initial_state =
     Some (0, \<lparr>nreads = 3,
         trace =
           [Ioremap 0x3108D00C 4, Readl 0x4001, Readl 0x4001, Readl 0x4001,
            Clk_get ''sys_clkin0'', Printk_speed None,
            Clk_get_rate (Clk_handle 0), Clk_put None]\<rparr>)"
  by (simp add: set_sc5xx_cpu_freq_def Let_def readl_def emit_def wait_loop_nonzero
      calc_cclk_freq_def sc5xx_get_cpu_freq_def env_stuck_def initial_state_def
      CGU_DIV_def CGU_DIV_UPDT_MASK_def CLK_def)

subsection \<open>The wait for an update in progress\<close>

text \<open>
  C1, as stated: when the update-in-progress flag is set and never clears, the transition
  ends after exactly the configured maximum number of poll iterations and returns a
  timeout error. It fails on the code. On a platform whose register reads \<open>0x4001\<close>
  for ever (flag set), \<open>set_sc5xx_cpu_freq\<close> reads the register three times, never
  delays, and returns 0, which is no error value: the code has no iteration count and no
  timeout result.
\<close>

theorem stuck_update_flag_no_timeout_counterexample:
  "set_sc5xx_cpu_freq env_stuck 1000000 initial_state =
     Some (0, \<lparr>nreads = 3,
         trace =
           [Ioremap 0x3108D00C 4, Readl 0x4001, Readl 0x4001, Readl 0x4001,
            Clk_get ''sys_clkin0'', Printk_speed None,
            Clk_get_rate (Clk_handle 0), Clk_put None]\<rparr>)
   \<and> \<not> IS_ERR_VALUE 0
   \<and> 0x4001 AND CGU_DIV_UPDT_MASK \<noteq> 0"
  by (simp add: set_sc5xx_cpu_freq_env_stuck CGU_DIV_UPDT_MASK_def IS_ERR_VALUE_def
      MAX_ERRNO_def)

text \<open>
  C1, amended: for every hardware state in which the update-in-progress flag is set at
  every read, \<open>set_sc5xx_cpu_freq\<close> never returns a timeout or any other error: the
  code configures no maximum number of poll iterations, and any value it returns, after
  however many polls, is 0, which \<open>IS_ERR_VALUE\<close> rejects. The statement leaves open
  whether and how long the function waits in such a state: the comment above the loop
  says that it waits for the update to complete, and the loop as written
  (\<open>while(!readl(cgu_div))\<close>) is not entered when the flag is set.
\<close>

theorem stuck_update_flag_never_times_out:
  assumes "\<forall>n. cgu_div e n AND CGU_DIV_UPDT_MASK \<noteq> 0"
      and "set_sc5xx_cpu_freq e new_freq s = Some (r, s')"
  shows "r = 0 \<and> \<not> IS_ERR_VALUE r"
proof -
  from assms(2) have "r = 0" by (rule set_sc5xx_cpu_freq_result)
  then show ?thesis by (simp add: IS_ERR_VALUE_0)
qed

theorem stuck_update_flag_never_times_out_witness:
  "(\<forall>n. cgu_div env_stuck n AND CGU_DIV_UPDT_MASK \<noteq> 0)
   \<and> set_sc5xx_cpu_freq env_stuck 1000000 initial_state =
       Some (0, \<lparr>nreads = 3,
         trace =
           [Ioremap 0x3108D00C 4, Readl 0x4001, Readl 0x4001, Readl 0x4001,
            Clk_get ''sys_clkin0'', Printk_speed None,
            Clk_get_rate (Clk_handle 0), Clk_put None]\<rparr>)
   \<and> (0 :: c_int) = 0 \<and> \<not> IS_ERR_VALUE 0"
proof -
  have stuck: "\<forall>n. cgu_div env_stuck n AND CGU_DIV_UPDT_MASK \<noteq> 0"
    by (simp add: env_stuck_def CGU_DIV_UPDT_MASK_def)
  from stuck_update_flag_never_times_out [OF stuck set_sc5xx_cpu_freq_env_stuck]
    stuck set_sc5xx_cpu_freq_env_stuck
  show ?thesis by simp
qed

subsection \<open>Divisor arithmetic\<close>

text \<open>
  C2 says that \<open>calc_cclk_divisor_for_freq\<close> applied to the frequency that
  \<open>calc_cclk_freq\<close> computes for a divisor \<open>D\<close> between 1 and 15 gives \<open>D\<close> back. In the
  code the composition is 0 for every environment and every \<open>D\<close>: the frequency computed
  is the reference rate whatever the divisor (25 MHz for \<open>D = 1\<close> and for \<open>D = 15\<close>), and
  the divisor computed is 0 whatever the frequency. The formulas in the comment above the
  two functions are not what the functions compute.
\<close>

theorem divisor_round_trip_yields_zero:
  "calc_cclk_divisor_for_freq (fst (calc_cclk_freq e D s)) = 0
   \<and> fst (calc_cclk_freq env_stuck 1 initial_state) = 25000000
   \<and> fst (calc_cclk_freq env_stuck 15 initial_state) = 25000000
   \<and> calc_cclk_divisor_for_freq (fst (calc_cclk_freq env_stuck 1 initial_state)) \<noteq> 1"
  by (simp add: calc_cclk_divisor_for_freq_def calc_cclk_freq_eq sc5xx_get_cpu_freq_fst
      env_stuck_def)


subsection \<open>Policy verification\<close>

text \<open>
  C3 says that \<open>sc5xx_verify\<close> returns \<open>-ENODEV\<close> exactly when the minimum and maximum
  frequencies are both zero, and otherwise clamps to the table's bounds. In the code the
  second assignment overwrites \<open>min\<close> and \<open>max\<close> is never assigned. With no platform
  symbol defined (both frequencies zero) and a non-zero value left in \<open>max\<close>, the
  function returns 0 and passes the limits \<open>(0, max)\<close> on; on a supported platform it
  passes the limits \<open>(1000000, max)\<close> on, not \<open>(800000, 1000000)\<close>.
\<close>

theorem sc5xx_verify_reads_unassigned_max:
  "sc5xx_verify ARCH_NONE within_limits 1 policy = (0, within_limits policy 0 1)
   \<and> sc5xx_verify ARCH_SC58X within_limits m policy = (0, within_limits policy 1000000 m)
   \<and> MIN_MHZ ARCH_NONE * 1000 = 0 \<and> MAX_MHZ ARCH_NONE * 1000 = 0
   \<and> MIN_MHZ ARCH_SC58X * 1000 = 800000 \<and> MAX_MHZ ARCH_SC58X * 1000 = 1000000"
  by (simp add: sc5xx_verify_def MIN_MHZ_def MAX_MHZ_def)

subsection \<open>The transition request\<close>

text \<open>
  C4. For every index strictly greater than the maximum valid index, \<open>sc5xx_target_index\<close>
  returns 0; all it does is print the warning: the register is neither mapped, read nor
  written, and the state is otherwise unchanged.
\<close>

theorem out_of_range_index_is_noop:
  assumes "max_valid_index (arch e) < index"
  shows "sc5xx_target_index e policy index s =
           Some (0, s\<lparr>trace := trace s @ [Printk ''Invalid frequency index provided'']\<rparr>)
         \<and> filter is_register_access
              (trace (s\<lparr>trace := trace s @ [Printk ''Invalid frequency index provided'']\<rparr>))
             = filter is_register_access (trace s)"
  using assms by (simp add: sc5xx_target_index_def max_valid_index_def emit_def)

theorem out_of_range_index_is_noop_witness:
  "max_valid_index (arch env_stuck) < 2
   \<and> sc5xx_target_index env_stuck () 2 initial_state =
       Some (0, \<lparr>nreads = 0, trace = [Printk ''Invalid frequency index provided'']\<rparr>)"
  using out_of_range_index_is_noop [of env_stuck 2 "()" initial_state]
  by (simp add: max_valid_index_def sc5xx_frequency_table_def initial_state_def)

text \<open>
  C6. For every valid index, if the frequency \<open>sc5xx_get_cpu_freq\<close> returns and the
  frequency of the table entry are both zero, \<open>sc5xx_target_index\<close> returns \<open>-ENODEV\<close>
  right after the frequency query: no transition is attempted, the register is not
  touched.
\<close>

theorem unsupported_guard_returns_ENODEV:
  assumes "index \<le> max_valid_index (arch e)"
      and "fst (sc5xx_get_cpu_freq e s) = 0"
      and "frequency (sc5xx_frequency_table (arch e) ! unat index) = 0"
  shows "sc5xx_target_index e policy index s = Some (- ENODEV, snd (sc5xx_get_cpu_freq e s))
         \<and> filter is_register_access (trace (snd (sc5xx_get_cpu_freq e s)))
             = filter is_register_access (trace s)
         \<and> nreads (snd (sc5xx_get_cpu_freq e s)) = nreads s"
  using assms
  by (simp add: sc5xx_target_index_def max_valid_index_def Let_def case_prod_beta
      sc5xx_get_cpu_freq_snd not_less [symmetric])

theorem unsupported_guard_returns_ENODEV_witness:
  "0 \<le> max_valid_index (arch env_none)
   \<and> fst (sc5xx_get_cpu_freq env_none initial_state) = 0
   \<and> frequency (sc5xx_frequency_table (arch env_none) ! unat (0 :: u32)) = 0
   \<and> sc5xx_target_index env_none () 0 initial_state =
        Some (- ENODEV,
          \<lparr>nreads = 0, trace = [Clk_get ''sys_clkin0'', Printk ''could not get clk: %s[%d]'']\<rparr>)"
  using unsupported_guard_returns_ENODEV [of 0 env_none initial_state "()"]
  by (simp add: sc5xx_get_cpu_freq_def sc5xx_frequency_table_def env_none_def
      initial_state_def MAX_MHZ_def MIN_MHZ_def Let_def emit_def CLK_def)




text \<open>
  C10. Whenever \<open>set_sc5xx_cpu_freq\<close> returns, it returns 0, which \<open>IS_ERR_VALUE\<close>
  rejects; so whenever \<open>sc5xx_target_index\<close> returns, it returns 0 or \<open>-ENODEV\<close>, for
  every policy and index, and never a hardware failure. Both do return when the wait is
  over (the first read has the flag clear, or a later read is not zero).
\<close>

theorem target_index_returns_0_or_ENODEV:
  "(set_sc5xx_cpu_freq e new_freq s = Some (r, s') \<longrightarrow> r = 0 \<and> \<not> IS_ERR_VALUE r)
   \<and> (sc5xx_target_index e policy index s = Some (r2, s2) \<longrightarrow> r2 = 0 \<or> r2 = - ENODEV)
   \<and> (cgu_div e (nreads s) AND CGU_DIV_UPDT_MASK = 0
        \<or> (\<exists>k. cgu_div e (Suc (nreads s) + k) \<noteq> 0) \<longrightarrow>
       (\<exists>s3. set_sc5xx_cpu_freq e new_freq s = Some (0, s3))
       \<and> (\<exists>r3 s3. sc5xx_target_index e policy index s = Some (r3, s3)))"
proof (intro conjI impI)
  assume "set_sc5xx_cpu_freq e new_freq s = Some (r, s')"
  then show "r = 0" by (rule set_sc5xx_cpu_freq_result)
  then show "\<not> IS_ERR_VALUE r" by (simp add: IS_ERR_VALUE_0)
next
  assume "sc5xx_target_index e policy index s = Some (r2, s2)"
  then show "r2 = 0 \<or> r2 = - ENODEV"
    by (auto simp add: sc5xx_target_index_def Let_def case_prod_beta
        split: if_splits option.splits dest: set_sc5xx_cpu_freq_result)
next
  assume ends: "cgu_div e (nreads s) AND CGU_DIV_UPDT_MASK = 0
        \<or> (\<exists>k. cgu_div e (Suc (nreads s) + k) \<noteq> 0)"
  from set_sc5xx_cpu_freq_returns [OF ends]
  show "\<exists>s3. set_sc5xx_cpu_freq e new_freq s = Some (0, s3)"
    by blast
  let ?s1 = "snd (sc5xx_get_cpu_freq e s)"
  from ends have "cgu_div e (nreads ?s1) AND CGU_DIV_UPDT_MASK = 0
        \<or> (\<exists>k. cgu_div e (Suc (nreads ?s1) + k) \<noteq> 0)"
    by (simp add: sc5xx_get_cpu_freq_snd)
  from set_sc5xx_cpu_freq_returns [OF this] obtain s3 where
    "set_sc5xx_cpu_freq e (frequency (sc5xx_frequency_table (arch e) ! unat index)) ?s1
       = Some (0, s3)"
    by blast
  then show "\<exists>r3 s3. sc5xx_target_index e policy index s = Some (r3, s3)"
    by (simp add: sc5xx_target_index_def Let_def case_prod_beta IS_ERR_VALUE_0)
qed

theorem target_index_returns_0_or_ENODEV_witness:
  "sc5xx_target_index env_none () 0 initial_state =
        Some (- ENODEV,
          \<lparr>nreads = 0, trace = [Clk_get ''sys_clkin0'', Printk ''could not get clk: %s[%d]'']\<rparr>)
   \<and> (- ENODEV = (0 :: c_int) \<or> - ENODEV = - ENODEV)
   \<and> cgu_div env_stuck (Suc (nreads initial_state) + 0) \<noteq> 0
   \<and> (\<exists>s3. set_sc5xx_cpu_freq env_stuck 1000000 initial_state = Some (0, s3))
   \<and> (\<exists>r3 s3. sc5xx_target_index env_stuck () 0 initial_state = Some (r3, s3))"
proof -
  have a: "sc5xx_target_index env_none () 0 initial_state =
        Some (- ENODEV,
          \<lparr>nreads = 0, trace = [Clk_get ''sys_clkin0'', Printk ''could not get clk: %s[%d]'']\<rparr>)"
    by (simp add: sc5xx_target_index_def sc5xx_get_cpu_freq_def sc5xx_frequency_table_def
        env_none_def initial_state_def MAX_MHZ_def MIN_MHZ_def Let_def emit_def CLK_def)
  have b: "cgu_div env_stuck (Suc (nreads initial_state) + 0) \<noteq> 0"
    by (simp add: env_stuck_def)
  then have c: "cgu_div env_stuck (nreads initial_state) AND CGU_DIV_UPDT_MASK = 0
           \<or> (\<exists>k. cgu_div env_stuck (Suc (nreads initial_state) + k) \<noteq> 0)"
    by blast
  from target_index_returns_0_or_ENODEV
         [of env_none _ initial_state _ _ "()" 0 "- ENODEV",
          THEN conjunct2, THEN conjunct1, rule_format, OF a]
       target_index_returns_0_or_ENODEV
         [of env_stuck 1000000 initial_state _ _ "()" 0,
          THEN conjunct2, THEN conjunct2, rule_format, OF c]
       a b
  show ?thesis by blast
qed

subsection \<open>Frequency query\<close>

text \<open>
  C9. \<open>sc5xx_get_cpu_freq\<close> returns 0 when the clock lookup fails (\<open>IS_ERR\<close>), and
  otherwise the rate \<open>clk_get_rate\<close> reports, converted from \<open>unsigned long\<close> to the
  \<open>unsigned int\<close> it returns: the very number whenever the rate is below \<open>2 ^ 32\<close>, as
  it always is where \<open>unsigned long\<close> has 32 bits. The result is a plain number fixed by
  the clock framework's answers: no error code, and not the unassigned \<open>core_clk_rate\<close>
  (which only the \<open>printk\<close> reads).
\<close>

theorem frequency_query_result:
  "(IS_ERR (clk_get e CLK) \<longrightarrow> fst (sc5xx_get_cpu_freq e s) = 0)
   \<and> (\<not> IS_ERR (clk_get e CLK) \<longrightarrow>
        fst (sc5xx_get_cpu_freq e s) = ucast (clk_get_rate e (clk_get e CLK)))
   \<and> (\<not> IS_ERR (clk_get e CLK) \<and> clk_get_rate e (clk_get e CLK) < 2 ^ 32 \<longrightarrow>
        unat (fst (sc5xx_get_cpu_freq e s)) = unat (clk_get_rate e (clk_get e CLK)))"
proof -
  have "unat (ucast w :: u32) = unat w" if "w < 2 ^ 32" for w :: ulong
  proof -
    from that have "unat w < 2 ^ 32" by (simp add: word_less_nat_alt)
    then show ?thesis by (simp add: unsigned_ucast_eq take_bit_nat_eq_self)
  qed
  then show ?thesis by (simp add: sc5xx_get_cpu_freq_fst)
qed

theorem frequency_query_result_witness:
  "IS_ERR (clk_get env_none CLK) \<and> fst (sc5xx_get_cpu_freq env_none initial_state) = 0
   \<and> \<not> IS_ERR (clk_get env_stuck CLK)
   \<and> clk_get_rate env_stuck (clk_get env_stuck CLK) < 2 ^ 32
   \<and> fst (sc5xx_get_cpu_freq env_stuck initial_state) = 25000000
   \<and> unat (fst (sc5xx_get_cpu_freq env_stuck initial_state)) = 25000000"
  using frequency_query_result [of env_none initial_state]
    frequency_query_result [of env_stuck initial_state]
  by (simp add: env_none_def env_stuck_def)

subsection \<open>The frequency table\<close>

text \<open>
  C5. The constructed table: entry 0 holds the maximum frequency (\<open>MAX_MHZ * 1000\<close>), the
  entry at the maximum valid index holds the minimum frequency (\<open>MIN_MHZ * 1000\<close>), the
  entry after it is the terminator (\<open>CPUFREQ_TABLE_END\<close>, \<open>driver_data = -1\<close>), the
  \<open>driver_data\<close> values, read as the signed numbers the initialiser writes, are 1, 0, -1
  and so descend strictly from the head, and the head's \<open>driver_data\<close> is the number of
  entries minus 2.
\<close>

theorem table_invariant:
  "frequency (sc5xx_frequency_table a ! 0) = MAX_MHZ a * 1000
   \<and> frequency (sc5xx_frequency_table a ! unat (max_valid_index a)) = MIN_MHZ a * 1000
   \<and> sc5xx_frequency_table a ! (unat (max_valid_index a) + 1)
       = \<lparr>frequency = CPUFREQ_TABLE_END, driver_data = - 1\<rparr>
   \<and> map (\<lambda>t. sint (driver_data t)) (sc5xx_frequency_table a) = [1, 0, - 1]
   \<and> sorted_wrt (\<lambda>x y. sint (driver_data y) < sint (driver_data x)) (sc5xx_frequency_table a)
   \<and> unat (driver_data (sc5xx_frequency_table a ! 0)) = length (sc5xx_frequency_table a) - 2
   \<and> unat (max_valid_index a) + 2 = length (sc5xx_frequency_table a)"
  by (simp add: sc5xx_frequency_table_def max_valid_index_def)

end
